theory Spec2Isabelle
  imports Complex_Main
begin

section \<open>Young's modulus calculator: data model\<close>

text \<open>
  The program is a single Python module, \<^verbatim>\<open>main.py\<close>. Its numbers are Python floats.
  The embedding takes them as real numbers, so the theorems are statements of exact
  arithmetic unless they say otherwise; the physics engine is embedded a second time
  with a rounding after every operation, to settle what depends on rounding. A division
  whose divisor is a variable is \<open>py_div\<close>, which raises \<open>ZeroDivisionError\<close> as Python
  does for a zero divisor; a division by a nonzero literal cannot raise and is written
  \<open>/\<close>.
\<close>

datatype py_error = ZeroDivisionError | EOFError | KeyError | IndexError

definition py_div :: "real \<Rightarrow> real \<Rightarrow> py_error + real" where
  "py_div a b = (if b = 0 then Inl ZeroDivisionError else Inr (a / b))"

text \<open>An entry of \<^verbatim>\<open>MATERIAL_DATABASE\<close>: the inner dictionary with its three keys.\<close>

record material =
  name :: string
  youngs_modulus :: real
  density :: real

text \<open>A reading as \<^verbatim>\<open>get_readings\<close> builds it: the dictionary with its three keys.\<close>

record reading =
  reading_num :: int
  weight :: real
  depression :: real

section \<open>Physics engine\<close>

definition calculate_moment_of_inertia :: "real \<Rightarrow> real \<Rightarrow> real" where
  "calculate_moment_of_inertia breadth width = (breadth * width ^ 3) / 12"

text \<open>
  The \<^verbatim>\<open>for reading in readings\<close> loop of \<^verbatim>\<open>calculate_youngs_modulus_uniform\<close>, with the
  list \<^verbatim>\<open>youngs_moduli\<close> as accumulator. An exception raised in the body ends the loop.
\<close>

fun uniform_loop :: "real \<Rightarrow> real \<Rightarrow> reading list \<Rightarrow> real list \<Rightarrow> py_error + real list" where
  "uniform_loop length_cm I [] youngs_moduli = Inr youngs_moduli"
| "uniform_loop length_cm I (reading # readings) youngs_moduli =
     (let weight_kg = weight reading / 1000;
          force_N = weight_kg * 9.81;
          depression_m = depression reading / 100;
          length_m = length_cm / 100;
          I_m4 = I / 100000000
      in if depression_m \<noteq> 0 then
           (case py_div force_N length_m of
              Inl e \<Rightarrow> Inl e
            | Inr w \<Rightarrow>
                (case py_div (5 * w * length_m ^ 4) (384 * I_m4 * \<bar>depression_m\<bar>) of
                   Inl e \<Rightarrow> Inl e
                 | Inr Y \<Rightarrow>
                     (let Y_GPa = Y / 1000000000
                      in uniform_loop length_cm I readings (youngs_moduli @ [Y_GPa]))))
         else uniform_loop length_cm I readings youngs_moduli)"

text \<open>
  The closing expression of both computations:
  \<^verbatim>\<open>sum(youngs_moduli) / len(youngs_moduli) if youngs_moduli else 0\<close>.
\<close>

definition average_moduli :: "real list \<Rightarrow> py_error + real" where
  "average_moduli youngs_moduli =
     (if youngs_moduli \<noteq> [] then py_div (sum_list youngs_moduli) (real (length youngs_moduli))
      else Inr 0)"

definition calculate_youngs_modulus_uniform ::
    "real \<Rightarrow> real \<Rightarrow> real \<Rightarrow> reading list \<Rightarrow> py_error + real" where
  "calculate_youngs_modulus_uniform length_cm breadth width readings =
     (let I = calculate_moment_of_inertia breadth width
      in case uniform_loop length_cm I readings [] of
           Inl e \<Rightarrow> Inl e
         | Inr youngs_moduli \<Rightarrow> average_moduli youngs_moduli)"

fun nonuniform_loop :: "real \<Rightarrow> real \<Rightarrow> reading list \<Rightarrow> real list \<Rightarrow> py_error + real list" where
  "nonuniform_loop length_cm I [] youngs_moduli = Inr youngs_moduli"
| "nonuniform_loop length_cm I (reading # readings) youngs_moduli =
     (let weight_kg = weight reading / 1000;
          force_N = weight_kg * 9.81;
          depression_m = depression reading / 100;
          length_m = length_cm / 100;
          I_m4 = I / 100000000
      in if depression_m \<noteq> 0 then
           (case py_div (force_N * length_m ^ 3) (48 * I_m4 * \<bar>depression_m\<bar>) of
              Inl e \<Rightarrow> Inl e
            | Inr Y \<Rightarrow>
                (let Y_GPa = Y / 1000000000
                 in nonuniform_loop length_cm I readings (youngs_moduli @ [Y_GPa])))
         else nonuniform_loop length_cm I readings youngs_moduli)"

definition calculate_youngs_modulus_nonuniform ::
    "real \<Rightarrow> real \<Rightarrow> real \<Rightarrow> reading list \<Rightarrow> py_error + real" where
  "calculate_youngs_modulus_nonuniform length_cm breadth width readings =
     (let I = calculate_moment_of_inertia breadth width
      in case nonuniform_loop length_cm I readings [] of
           Inl e \<Rightarrow> Inl e
         | Inr youngs_moduli \<Rightarrow> average_moduli youngs_moduli)"

section \<open>Material catalog\<close>

text \<open>
  \<^verbatim>\<open>MATERIAL_DATABASE\<close> is a dictionary literal; Python dictionaries keep insertion order,
  which \<^verbatim>\<open>display_materials\<close> and \<^verbatim>\<open>get_material_choice\<close> rely on, so it is an association
  list in the order of the literal.
\<close>

definition MATERIAL_DATABASE :: "(string \<times> material) list" where
  "MATERIAL_DATABASE =
     [(''iron'', \<lparr>name = ''Iron'', youngs_modulus = 210, density = 7.87\<rparr>),
      (''steel'', \<lparr>name = ''Steel (Mild)'', youngs_modulus = 200, density = 7.85\<rparr>),
      (''stainless_steel'', \<lparr>name = ''Stainless Steel'', youngs_modulus = 190, density = 8.00\<rparr>),
      (''aluminum'', \<lparr>name = ''Aluminum'', youngs_modulus = 69, density = 2.70\<rparr>),
      (''copper'', \<lparr>name = ''Copper'', youngs_modulus = 130, density = 8.96\<rparr>),
      (''brass'', \<lparr>name = ''Brass'', youngs_modulus = 100, density = 8.50\<rparr>),
      (''oak_wood'', \<lparr>name = ''Oak Wood'', youngs_modulus = 11, density = 0.75\<rparr>),
      (''pine_wood'', \<lparr>name = ''Pine Wood'', youngs_modulus = 9, density = 0.55\<rparr>),
      (''teak_wood'', \<lparr>name = ''Teak Wood'', youngs_modulus = 12, density = 0.65\<rparr>),
      (''bamboo'', \<lparr>name = ''Bamboo'', youngs_modulus = 20, density = 0.60\<rparr>),
      (''plywood'', \<lparr>name = ''Plywood'', youngs_modulus = 6, density = 0.55\<rparr>),
      (''pvc'', \<lparr>name = ''PVC'', youngs_modulus = 3, density = 1.40\<rparr>),
      (''acrylic'', \<lparr>name = ''Acrylic'', youngs_modulus = 3.2, density = 1.18\<rparr>)]"

text \<open>
  Python list indexing \<^verbatim>\<open>xs[i]\<close>: a negative index counts from the end, an index out of
  range raises \<^verbatim>\<open>IndexError\<close>. Dictionary lookup \<^verbatim>\<open>d[k]\<close> raises \<^verbatim>\<open>KeyError\<close> for a missing key.
\<close>

definition py_index :: "'a list \<Rightarrow> int \<Rightarrow> py_error + 'a" where
  "py_index xs i =
     (if 0 \<le> i \<and> i < int (length xs) then Inr (xs ! nat i)
      else if i < 0 \<and> - int (length xs) \<le> i then Inr (xs ! nat (int (length xs) + i))
      else Inl IndexError)"

definition py_getitem :: "('k \<times> 'v) list \<Rightarrow> 'k \<Rightarrow> py_error + 'v" where
  "py_getitem d k = (case map_of d k of None \<Rightarrow> Inl KeyError | Some v \<Rightarrow> Inr v)"

section \<open>Console and formatted text\<close>

text \<open>
  A Python string is a list of code points. The characters of the model are the code
  points below 256; the few printed characters beyond that range are pieces \<open>Uni n\<close> with
  their code point. How a number is rendered in decimal is not modelled: a piece carries
  the number and its format. \<open>Num x\<close> is \<^verbatim>\<open>{x}\<close>, \<open>IntNum i\<close> is an integer \<^verbatim>\<open>{i}\<close>,
  \<open>Fixed k x\<close> is \<^verbatim>\<open>{x:.kf}\<close> and \<open>LJust n p\<close> is \<open>p\<close> left-justified in width \<open>n\<close>
  (\<^verbatim>\<open>{p:<n}\<close>).
\<close>

datatype piece = Txt string | Uni nat | Num real | IntNum int | Fixed nat real | LJust nat piece

type_synonym pieces = "piece list"

text \<open>
  What reaches standard output: \<open>Print t\<close> is \<^verbatim>\<open>print(t)\<close>, the text and a newline;
  \<open>Write t\<close> is text with no newline after it (the prompt of \<^verbatim>\<open>input\<close>, or
  \<^verbatim>\<open>print(t, end="")\<close>).
\<close>

datatype out = Print pieces | Write pieces

definition newline :: char where
  "newline = CHR 0x0A"

definition banner :: "nat \<Rightarrow> string" where
  "banner n = replicate n CHR ''=''"

definition dashes :: "nat \<Rightarrow> string" where
  "dashes n = replicate n CHR ''-''"

text \<open>
  A step that reads the console: what it wrote, and either the exception that ended it or
  its value with the input lines it left unread. \<^verbatim>\<open>input\<close> raises \<^verbatim>\<open>EOFError\<close> when no line is
  left.
\<close>

type_synonym 'a console = "out list \<times> (py_error + 'a \<times> string list)"

definition emit :: "out list \<Rightarrow> 'a console \<Rightarrow> 'a console" where
  "emit outs c = (outs @ fst c, snd c)"

text \<open>
  A step that only writes: what it wrote, and the exception that ended it, if one did.
  \<open>and_then a b\<close> runs \<open>b\<close> after \<open>a\<close> unless \<open>a\<close> raised.
\<close>

type_synonym printed = "out list \<times> py_error option"

definition and_then :: "printed \<Rightarrow> printed \<Rightarrow> printed" where
  "and_then a b = (case snd a of Some e \<Rightarrow> a | None \<Rightarrow> (fst a @ fst b, snd b))"

section \<open>Input collection\<close>

text \<open>
  The console functions read lines with \<^verbatim>\<open>input\<close> and convert them with Python's \<^verbatim>\<open>int\<close> and
  \<^verbatim>\<open>float\<close>. The two conversions are parameters \<open>int_of\<close> and \<open>float_of\<close>: \<open>None\<close> is
  \<^verbatim>\<open>ValueError\<close>, which every loop below catches. Each \<^verbatim>\<open>while True\<close> loop is a recursion over
  the lines still to be read: an iteration that does not return has read at least one.
\<close>

definition display_materials :: "out list" where
  "display_materials =
     [Print [Txt (newline # banner 60)],
      Print [Txt ''AVAILABLE MATERIALS IN DATABASE''],
      Print [Txt (banner 60)]]
     @ map (\<lambda>(i, (key, material)).
              Print [IntNum i, Txt ''. '', LJust 20 (Txt (name material)),
                     Txt '' - Young's Modulus: '', Num (youngs_modulus material), Txt '' GPa''])
           (zip [1..int (length MATERIAL_DATABASE)] MATERIAL_DATABASE)
     @ [Print [Txt (banner 60)]]"

fun get_material_choice_loop ::
    "(string \<Rightarrow> int option) \<Rightarrow> string list \<Rightarrow> (string \<times> material) console" where
  "get_material_choice_loop int_of [] = ([Write [Txt ''Your choice: '']], Inl EOFError)"
| "get_material_choice_loop int_of (line # stdin) =
     emit [Write [Txt ''Your choice: '']]
       (case int_of line of
          None \<Rightarrow>
            emit [Print [Txt ''Invalid input. Please enter a number.'']]
              (get_material_choice_loop int_of stdin)
        | Some choice \<Rightarrow>
            if 1 \<le> choice \<and> choice \<le> int (length MATERIAL_DATABASE) then
              (case py_index (map fst MATERIAL_DATABASE) (choice - 1) of
                 Inl e \<Rightarrow> ([], Inl e)
               | Inr material_key \<Rightarrow>
                   (case py_getitem MATERIAL_DATABASE material_key of
                      Inl e \<Rightarrow> ([], Inl e)
                    | Inr material \<Rightarrow> ([], Inr ((material_key, material), stdin))))
            else
              emit [Print [Txt ''Please enter a number between 1 and '',
                           IntNum (int (length MATERIAL_DATABASE))]]
                (get_material_choice_loop int_of stdin))"

definition get_material_choice ::
    "(string \<Rightarrow> int option) \<Rightarrow> string list \<Rightarrow> (string \<times> material) console" where
  "get_material_choice int_of stdin =
     emit (display_materials
           @ [Print [Txt (newline # ''Enter the number corresponding to your material:'')]])
       (get_material_choice_loop int_of stdin)"

fun get_dimensions_loop ::
    "(string \<Rightarrow> real option) \<Rightarrow> string list \<Rightarrow> (real \<times> real \<times> real) console" where
  "get_dimensions_loop float_of [] = ([Write [Txt ''Length of rod (in cm): '']], Inl EOFError)"
| "get_dimensions_loop float_of (line1 # stdin1) =
     emit [Write [Txt ''Length of rod (in cm): '']]
       (case float_of line1 of
          None \<Rightarrow>
            emit [Print [Txt ''Invalid input. Please enter numerical values.'']]
              (get_dimensions_loop float_of stdin1)
        | Some length_cm \<Rightarrow>
            (case stdin1 of
               [] \<Rightarrow> ([Write [Txt ''Breadth of rod (in cm): '']], Inl EOFError)
             | line2 # stdin2 \<Rightarrow>
                 emit [Write [Txt ''Breadth of rod (in cm): '']]
                   (case float_of line2 of
                      None \<Rightarrow>
                        emit [Print [Txt ''Invalid input. Please enter numerical values.'']]
                          (get_dimensions_loop float_of stdin2)
                    | Some breadth \<Rightarrow>
                        (case stdin2 of
                           [] \<Rightarrow> ([Write [Txt ''Width/Thickness of rod (in cm): '']], Inl EOFError)
                         | line3 # stdin3 \<Rightarrow>
                             emit [Write [Txt ''Width/Thickness of rod (in cm): '']]
                               (case float_of line3 of
                                  None \<Rightarrow>
                                    emit [Print [Txt ''Invalid input. Please enter numerical values.'']]
                                      (get_dimensions_loop float_of stdin3)
                                | Some width \<Rightarrow>
                                    if length_cm \<le> 0 \<or> breadth \<le> 0 \<or> width \<le> 0 then
                                      emit [Print [Txt ''All dimensions must be positive values. Please try again.'']]
                                        (get_dimensions_loop float_of stdin3)
                                    else ([], Inr ((length_cm, breadth, width), stdin3)))))))"

definition get_dimensions ::
    "(string \<Rightarrow> real option) \<Rightarrow> string list \<Rightarrow> (real \<times> real \<times> real) console" where
  "get_dimensions float_of stdin =
     emit [Print [Txt (newline # banner 60)],
           Print [Txt ''ENTER ROD DIMENSIONS''],
           Print [Txt (banner 60)]]
       (get_dimensions_loop float_of stdin)"

fun get_bending_type_loop :: "(string \<Rightarrow> int option) \<Rightarrow> string list \<Rightarrow> int console" where
  "get_bending_type_loop int_of [] =
     ([Write [Txt (newline # ''Your choice (1 or 2): '')]], Inl EOFError)"
| "get_bending_type_loop int_of (line # stdin) =
     emit [Write [Txt (newline # ''Your choice (1 or 2): '')]]
       (case int_of line of
          None \<Rightarrow>
            emit [Print [Txt ''Invalid input. Please enter 1 or 2.'']]
              (get_bending_type_loop int_of stdin)
        | Some choice \<Rightarrow>
            if choice \<in> set [1, 2] then ([], Inr (choice, stdin))
            else emit [Print [Txt ''Please enter 1 or 2'']] (get_bending_type_loop int_of stdin))"

definition get_bending_type :: "(string \<Rightarrow> int option) \<Rightarrow> string list \<Rightarrow> int console" where
  "get_bending_type int_of stdin =
     emit [Print [Txt (newline # banner 60)],
           Print [Txt ''SELECT BENDING TYPE''],
           Print [Txt (banner 60)],
           Print [Txt ''1. Uniform Bending (Load distributed uniformly)''],
           Print [Txt ''2. Non-Uniform Bending (Point load at center)'']]
       (get_bending_type_loop int_of stdin)"

text \<open>The three loops of \<^verbatim>\<open>get_readings\<close>, then the function.\<close>

fun num_readings_loop :: "(string \<Rightarrow> int option) \<Rightarrow> string list \<Rightarrow> int console" where
  "num_readings_loop int_of [] =
     ([Write [Txt ''How many readings do you want to take? '']], Inl EOFError)"
| "num_readings_loop int_of (line # stdin) =
     emit [Write [Txt ''How many readings do you want to take? '']]
       (case int_of line of
          None \<Rightarrow>
            emit [Print [Txt ''Invalid input. Please enter a number.'']]
              (num_readings_loop int_of stdin)
        | Some num_readings \<Rightarrow>
            if num_readings \<le> 0 then
              emit [Print [Txt ''Please enter a positive number of readings.'']]
                (num_readings_loop int_of stdin)
            else ([], Inr (num_readings, stdin)))"

fun weight_increment_loop :: "(string \<Rightarrow> real option) \<Rightarrow> string list \<Rightarrow> real console" where
  "weight_increment_loop float_of [] =
     ([Write [Txt ''Weight added at each reading (in grams): '']], Inl EOFError)"
| "weight_increment_loop float_of (line # stdin) =
     emit [Write [Txt ''Weight added at each reading (in grams): '']]
       (case float_of line of
          None \<Rightarrow>
            emit [Print [Txt ''Invalid input. Please enter a numerical value.'']]
              (weight_increment_loop float_of stdin)
        | Some weight_increment \<Rightarrow>
            if weight_increment \<le> 0 then
              emit [Print [Txt ''Weight must be positive.'']]
                (weight_increment_loop float_of stdin)
            else ([], Inr (weight_increment, stdin)))"

text \<open>
  The inner \<^verbatim>\<open>while True\<close> of the \<^verbatim>\<open>for\<close> loop, for the reading of index \<open>i\<close> (from 0). It
  returns the reading that the loop appends.
\<close>

fun depression_loop ::
    "(string \<Rightarrow> real option) \<Rightarrow> real \<Rightarrow> nat \<Rightarrow> string list \<Rightarrow> reading console" where
  "depression_loop float_of weight_increment i [] =
     (let weight_g = weight_increment * (real i + 1)
      in ([Write [Txt ''Reading '', IntNum (int i + 1), Txt '' (Weight: '', Num weight_g, Txt '' g): '']],
          Inl EOFError))"
| "depression_loop float_of weight_increment i (line # stdin) =
     (let weight_g = weight_increment * (real i + 1)
      in emit [Write [Txt ''Reading '', IntNum (int i + 1), Txt '' (Weight: '', Num weight_g, Txt '' g): '']]
           (case float_of line of
              None \<Rightarrow>
                emit [Print [Txt ''Invalid input. Please enter a numerical value.'']]
                  (depression_loop float_of weight_increment i stdin)
            | Some depression_cm \<Rightarrow>
                ([], Inr (\<lparr>reading_num = int i + 1, weight = weight_g, depression = depression_cm\<rparr>,
                          stdin))))"

text \<open>\<^verbatim>\<open>for i in range(num_readings)\<close>, over the list of the indices still to come.\<close>

fun readings_loop ::
    "(string \<Rightarrow> real option) \<Rightarrow> real \<Rightarrow> nat list \<Rightarrow> string list \<Rightarrow> reading list
       \<Rightarrow> reading list console" where
  "readings_loop float_of weight_increment [] stdin readings = ([], Inr (readings, stdin))"
| "readings_loop float_of weight_increment (i # indices) stdin readings =
     (case depression_loop float_of weight_increment i stdin of
        (outs, Inl e) \<Rightarrow> (outs, Inl e)
      | (outs, Inr (reading, stdin')) \<Rightarrow>
          emit outs (readings_loop float_of weight_increment indices stdin' (readings @ [reading])))"

definition get_readings ::
    "(string \<Rightarrow> int option) \<Rightarrow> (string \<Rightarrow> real option) \<Rightarrow> string list
       \<Rightarrow> (reading list \<times> real) console" where
  "get_readings int_of float_of stdin =
     emit [Print [Txt (newline # banner 60)],
           Print [Txt ''MEASUREMENT READINGS''],
           Print [Txt (banner 60)]]
       (case num_readings_loop int_of stdin of
          (outs1, Inl e) \<Rightarrow> (outs1, Inl e)
        | (outs1, Inr (num_readings, stdin1)) \<Rightarrow>
            emit outs1
              (case weight_increment_loop float_of stdin1 of
                 (outs2, Inl e) \<Rightarrow> (outs2, Inl e)
               | (outs2, Inr (weight_increment, stdin2)) \<Rightarrow>
                   emit (outs2
                         @ [Print [Txt (newline # ''Enter the depression/elevation at each reading (in cm):'')],
                            Print [Txt ''(Positive for depression/downward, Negative for elevation/upward)'']])
                     (case readings_loop float_of weight_increment [0..<nat num_readings] stdin2 [] of
                        (outs3, Inl e) \<Rightarrow> (outs3, Inl e)
                      | (outs3, Inr (readings, stdin3)) \<Rightarrow>
                          (outs3, Inr ((readings, weight_increment), stdin3)))))"

section \<open>Report renderer\<close>

text \<open>
  The \<^verbatim>\<open>for reading in readings\<close> loop of \<^verbatim>\<open>display_results\<close>: one table row per reading,
  with the signed depression as entered and the individual modulus, 0 for a zero
  depression.
\<close>

fun display_rows :: "real \<Rightarrow> real \<Rightarrow> int \<Rightarrow> reading list \<Rightarrow> printed" where
  "display_rows length_cm I bending_type [] = ([], None)"
| "display_rows length_cm I bending_type (reading # readings) =
     (let weight_kg = weight reading / 1000;
          force_N = weight_kg * 9.81;
          depression_m = depression reading / 100;
          length_m = length_cm / 100;
          I_m4 = I / 100000000
      in case (if depression_m \<noteq> 0 then
                 (case (if bending_type = 1 then
                          (case py_div force_N length_m of
                             Inl e \<Rightarrow> Inl e
                           | Inr w \<Rightarrow> py_div (5 * w * length_m ^ 4) (384 * I_m4 * \<bar>depression_m\<bar>))
                        else py_div (force_N * length_m ^ 3) (48 * I_m4 * \<bar>depression_m\<bar>)) of
                    Inl e \<Rightarrow> Inl e
                  | Inr Y \<Rightarrow> Inr (Y / 1000000000))
               else Inr 0) of
           Inl e \<Rightarrow> ([], Some e)
         | Inr Y_GPa \<Rightarrow>
             and_then
               ([Print [LJust 10 (IntNum (reading_num reading)), Txt '' '',
                        LJust 15 (Fixed 2 (weight reading)), Txt '' '',
                        LJust 20 (Fixed 4 (depression reading)), Txt '' '',
                        LJust 20 (Fixed 2 Y_GPa)]], None)
               (display_rows length_cm I bending_type readings))"

text \<open>The percentage difference of \<^verbatim>\<open>display_results\<close>, under its guard.\<close>

definition percentage_difference :: "real \<Rightarrow> material \<Rightarrow> printed" where
  "percentage_difference calculated_modulus material =
     (if youngs_modulus material \<noteq> 0 then
        (case py_div \<bar>calculated_modulus - youngs_modulus material\<bar> (youngs_modulus material) of
           Inl e \<Rightarrow> ([], Some e)
         | Inr q \<Rightarrow>
             (let percent_diff = q * 100
              in ([Print [Txt ''  Percentage Difference:       '', Fixed 2 percent_diff, Txt ''%'']],
                  None)))
      else ([], None))"

text \<open>The verdict of \<^verbatim>\<open>display_results\<close>: the \<^verbatim>\<open>if\<close> that follows \<^verbatim>\<open>ANALYSIS:\<close>.\<close>

definition verdict_consistent :: "out list" where
  "verdict_consistent =
     [Print [Txt ''  '', Uni 0x2713,
             Txt '' Results are consistent with expected values for this material.'']]"

definition verdict_differs :: "out list" where
  "verdict_differs =
     [Print [Txt ''  '', Uni 0x26A0, Txt '' Results differ significantly from expected values.''],
      Print [Txt ''    Possible reasons: measurement errors, material impurities,''],
      Print [Txt ''    temperature effects, or non-ideal experimental conditions.'']]"

definition analysis :: "real \<Rightarrow> material \<Rightarrow> printed" where
  "analysis calculated_modulus material =
     (case py_div \<bar>calculated_modulus - youngs_modulus material\<bar> (youngs_modulus material) of
        Inl e \<Rightarrow> ([], Some e)
      | Inr ratio \<Rightarrow>
          if ratio < 0.2 then (verdict_consistent, None) else (verdict_differs, None))"

definition display_results ::
    "string \<Rightarrow> material \<Rightarrow> real \<Rightarrow> real \<Rightarrow> real \<Rightarrow> int \<Rightarrow> reading list \<Rightarrow> real \<Rightarrow> printed" where
  "display_results material_key material length_cm breadth width bending_type readings
       calculated_modulus =
     (let bending_name =
            (if bending_type = 1 then ''Uniform Bending'' else ''Non-Uniform Bending (Point Load)'');
          I = calculate_moment_of_inertia breadth width
      in and_then
           ([Print [Txt (newline # banner 80)],
             Print [Txt ''YOUNG'S MODULUS CALCULATION RESULTS''],
             Print [Txt (banner 80)],
             Print [Txt (newline # ''MATERIAL INFORMATION:'')],
             Print [Txt ''  Material: '', Txt (name material)],
             Print [Txt ''  Expected Young's Modulus: '', Num (youngs_modulus material), Txt '' GPa''],
             Print [Txt ''  Density: '', Num (density material), Txt ('' g/cm'' @ [CHR 0xB3])],
             Print [Txt (newline # ''ROD DIMENSIONS:'')],
             Print [Txt ''  Length: '', Num length_cm, Txt '' cm''],
             Print [Txt ''  Breadth: '', Num breadth, Txt '' cm''],
             Print [Txt ''  Width/Thickness: '', Num width, Txt '' cm''],
             Print [Txt (newline # ''BENDING TYPE:'')],
             Print [Txt ''  '', Txt bending_name],
             Print [Txt (newline # ''MOMENT OF INERTIA: ''), Fixed 6 I, Txt '' cm'', Uni 0x2074],
             Print [Txt (newline # dashes 80)],
             Print [Txt ''MEASUREMENT READINGS''],
             Print [Txt (dashes 80)],
             Print [LJust 10 (Txt ''Reading''), Txt '' '', LJust 15 (Txt ''Weight (g)''), Txt '' '',
                    LJust 20 (Txt ''Depression (cm)''), Txt '' '',
                    LJust 20 (Txt ''Individual Y (GPa)'')],
             Print [Txt (dashes 80)]], None)
        (and_then (display_rows length_cm I bending_type readings)
        (and_then
           ([Print [Txt (dashes 80)],
             Print [Txt (newline # banner 80)],
             Print [Txt ''FINAL YOUNG'S MODULUS (Calculated Average)''],
             Print [Txt (banner 80)],
             Print [Txt (newline # ''  Calculated Young's Modulus: ''), Fixed 2 calculated_modulus,
                    Txt '' GPa''],
             Print [Txt ''  Expected Young's Modulus:   '', Num (youngs_modulus material),
                    Txt '' GPa'']], None)
        (and_then (percentage_difference calculated_modulus material)
        (and_then
           ([Print [Txt (newline # banner 80)],
             Print [Txt (newline # ''ANALYSIS:'')]], None)
        (and_then (analysis calculated_modulus material)
           ([Print [Txt (newline # banner 80)]], None)))))))"

section \<open>Orchestrator\<close>

text \<open>
  \<^verbatim>\<open>str.strip()\<close> and \<^verbatim>\<open>str.lower()\<close> on the code points below 256. Python's white space there
  is 9 to 13, 28 to 32, 133 and 160; its upper-case letters are 65 to 90 and 192 to 222
  without 215, each 32 below its lower-case letter.
\<close>

definition py_isspace :: "char \<Rightarrow> bool" where
  "py_isspace c =
     (let n = (of_char c :: nat)
      in (9 \<le> n \<and> n \<le> 13) \<or> (28 \<le> n \<and> n \<le> 32) \<or> n = 133 \<or> n = 160)"

definition py_strip :: "string \<Rightarrow> string" where
  "py_strip s = rev (dropWhile py_isspace (rev (dropWhile py_isspace s)))"

definition py_lower_char :: "char \<Rightarrow> char" where
  "py_lower_char c =
     (let n = (of_char c :: nat)
      in if (65 \<le> n \<and> n \<le> 90) \<or> (192 \<le> n \<and> n \<le> 222 \<and> n \<noteq> 215) then char_of (n + 32)
         else c)"

definition py_lower :: "string \<Rightarrow> string" where
  "py_lower s = map py_lower_char s"

text \<open>
  The files of the working directory, by name; a name and a content are formatted text.
  \<^verbatim>\<open>open(filename, 'w')\<close> replaces the file; a failure of the operating system to open or
  write it is outside the model. A run of \<^verbatim>\<open>main\<close> gives what it wrote to the console, the
  files it leaves and the exception that ended it, if one did.
\<close>

type_synonym files = "pieces \<Rightarrow> pieces option"

type_synonym run = "out list \<times> files \<times> py_error option"

definition emit_run :: "out list \<Rightarrow> run \<Rightarrow> run" where
  "emit_run outs r = (outs @ fst r, snd r)"

text \<open>The text that the \<^verbatim>\<open>f.write\<close> calls of \<^verbatim>\<open>main\<close> put into the file, in order.\<close>

definition report_text ::
    "material \<Rightarrow> real \<Rightarrow> real \<Rightarrow> real \<Rightarrow> int \<Rightarrow> reading list \<Rightarrow> real \<Rightarrow> pieces" where
  "report_text material length_cm breadth width bending_type readings calculated_modulus =
     [Txt (banner 80 @ [newline]),
      Txt (''YOUNG'S MODULUS CALCULATION RESULTS'' @ [newline]),
      Txt (banner 80 @ [newline, newline]),
      Txt ''Material: '', Txt (name material), Txt [newline],
      Txt ''Expected Young's Modulus: '', Num (youngs_modulus material), Txt ('' GPa'' @ [newline]),
      Txt ''Calculated Young's Modulus: '', Fixed 2 calculated_modulus,
      Txt ('' GPa'' @ [newline, newline]),
      Txt ''Rod Dimensions: L='', Num length_cm, Txt ''cm, B='', Num breadth, Txt ''cm, W='',
      Num width, Txt (''cm'' @ [newline]),
      Txt ''Bending Type: '', Txt (if bending_type = 1 then ''Uniform'' else ''Non-Uniform''),
      Txt [newline, newline],
      Txt (''Readings:'' @ [newline])]
     @ concat (map (\<lambda>reading.
                      [Txt ''  '', IntNum (reading_num reading), Txt '': Weight='',
                       Num (weight reading), Txt ''g, '', Txt ''Depression='',
                       Num (depression reading), Txt (''cm'' @ [newline])])
                   readings)"

text \<open>
  The end of \<^verbatim>\<open>main\<close>, from the comment \<^verbatim>\<open># Save option\<close> on: the question, the answer read by
  \<^verbatim>\<open>input().strip().lower()\<close>, the file when the answer is in \<^verbatim>\<open>['yes', 'y']\<close>, and the closing
  message.
\<close>

definition save_option ::
    "string \<Rightarrow> material \<Rightarrow> real \<Rightarrow> real \<Rightarrow> real \<Rightarrow> int \<Rightarrow> reading list \<Rightarrow> real
       \<Rightarrow> string list \<Rightarrow> files \<Rightarrow> run" where
  "save_option material_key material length_cm breadth width bending_type readings
       calculated_modulus stdin fs =
     emit_run [Write [Txt (newline # ''Would you like to save these results to a file? (yes/no): '')]]
       (case stdin of
          [] \<Rightarrow> ([], fs, Some EOFError)
        | line # stdin' \<Rightarrow>
            (let save_choice = py_lower (py_strip line);
                 closing = [Print [Txt (newline # ''Thank you for using the Young's Modulus Measurement System!'')],
                            Print [Txt (banner 80)]]
             in if save_choice \<in> set [''yes'', ''y''] then
                  (let filename = [Txt ''youngs_modulus_'', Txt material_key, Txt ''_'',
                                   IntNum bending_type, Txt ''.txt'']
                   in (Print ([Txt [newline], Uni 0x2713, Txt '' Results saved to ''] @ filename) # closing,
                       fs(filename \<mapsto> report_text material length_cm breadth width bending_type
                                        readings calculated_modulus),
                       None))
                else (closing, fs, None)))"

definition main ::
    "(string \<Rightarrow> int option) \<Rightarrow> (string \<Rightarrow> real option) \<Rightarrow> string list \<Rightarrow> files \<Rightarrow> run" where
  "main int_of float_of stdin fs =
     emit_run [Print [Txt (banner 80)],
               Print [Txt ''YOUNG'S MODULUS MEASUREMENT SYSTEM''],
               Print [Txt ''For Thin Sheet-Like Rod Materials''],
               Print [Txt (banner 80)]]
       (case get_material_choice int_of stdin of
          (outs1, Inl e) \<Rightarrow> (outs1, fs, Some e)
        | (outs1, Inr ((material_key, material), stdin1)) \<Rightarrow>
            emit_run outs1
              (case get_dimensions float_of stdin1 of
                 (outs2, Inl e) \<Rightarrow> (outs2, fs, Some e)
               | (outs2, Inr ((length_cm, breadth, width), stdin2)) \<Rightarrow>
                   emit_run outs2
                     (case get_bending_type int_of stdin2 of
                        (outs3, Inl e) \<Rightarrow> (outs3, fs, Some e)
                      | (outs3, Inr (bending_type, stdin3)) \<Rightarrow>
                          emit_run outs3
                            (case get_readings int_of float_of stdin3 of
                               (outs4, Inl e) \<Rightarrow> (outs4, fs, Some e)
                             | (outs4, Inr ((readings, weight_increment), stdin4)) \<Rightarrow>
                                 emit_run outs4
                                   (case (if bending_type = 1 then
                                            calculate_youngs_modulus_uniform
                                              length_cm breadth width readings
                                          else
                                            calculate_youngs_modulus_nonuniform
                                              length_cm breadth width readings) of
                                      Inl e \<Rightarrow> ([], fs, Some e)
                                    | Inr calculated_modulus \<Rightarrow>
                                        (case display_results material_key material length_cm
                                                breadth width bending_type readings
                                                calculated_modulus of
                                           (outs5, Some e) \<Rightarrow> (outs5, fs, Some e)
                                         | (outs5, None) \<Rightarrow>
                                             emit_run outs5
                                               (save_option material_key material length_cm
                                                  breadth width bending_type readings
                                                  calculated_modulus stdin4 fs)))))))"

section \<open>The specification's formulas\<close>

text \<open>
  These definitions follow the words of the specification, not the code; the theorems
  below compare the code with them. The per-reading modulus for uniform bending is
  \<open>Y = 5 w length_m^4 / (384 I_m4 |deflection_m|)\<close> pascals divided by \<open>10^9\<close>, with
  \<open>force = (weight_g / 1000) 9.81\<close>, \<open>length_m = length_cm / 100\<close>,
  \<open>I_m4 = (breadth thickness^3 / 12) / 10^8\<close> and \<open>w = force / length_m\<close>; for a point
  load it is \<open>Y = force length_m^3 / (48 I_m4 |deflection_m|)\<close>.
\<close>

definition spec_uniform_modulus :: "real \<Rightarrow> real \<Rightarrow> real \<Rightarrow> reading \<Rightarrow> real" where
  "spec_uniform_modulus length_cm breadth thickness r =
     (let force = (weight r / 1000) * 9.81;
          length_m = length_cm / 100;
          I_m4 = (breadth * thickness ^ 3 / 12) / 100000000;
          w = force / length_m;
          deflection_m = depression r / 100
      in (5 * w * length_m ^ 4 / (384 * I_m4 * \<bar>deflection_m\<bar>)) / 1000000000)"

definition spec_point_load_modulus :: "real \<Rightarrow> real \<Rightarrow> real \<Rightarrow> reading \<Rightarrow> real" where
  "spec_point_load_modulus length_cm breadth thickness r =
     (let force = (weight r / 1000) * 9.81;
          length_m = length_cm / 100;
          I_m4 = (breadth * thickness ^ 3 / 12) / 100000000;
          deflection_m = depression r / 100
      in (force * length_m ^ 3 / (48 * I_m4 * \<bar>deflection_m\<bar>)) / 1000000000)"

text \<open>The readings that the specification includes in the average, in their order.\<close>

definition nonzero_deflection :: "reading list \<Rightarrow> reading list" where
  "nonzero_deflection readings = filter (\<lambda>r. depression r \<noteq> 0) readings"

text \<open>The arithmetic mean, which the specification defines as 0 when no reading qualifies.\<close>

definition arithmetic_mean :: "real list \<Rightarrow> real" where
  "arithmetic_mean xs = (if xs = [] then 0 else sum_list xs / real (length xs))"

text \<open>The same readings with every deflection negated.\<close>

definition negate_deflections :: "reading list \<Rightarrow> reading list" where
  "negate_deflections readings = map (\<lambda>r. r\<lparr>depression := - depression r\<rparr>) readings"

section \<open>Physics engine in rounded arithmetic\<close>

text \<open>
  Python's floats are IEEE 754 binary64 numbers, and each operation returns its exact
  result rounded to the nearest of them, ties to even. \<open>binary64\<close> is that rounding to 53
  significant bits for a result in the normal range: the magnitude is scaled by powers of
  two into \<open>[2^52, 2^53)\<close>, rounded to an integer and scaled back. Subnormal results,
  overflow, infinities and NaN are not modelled.
\<close>

definition round_half_even :: "real \<Rightarrow> int" where
  "round_half_even x =
     (let f = \<lfloor>x\<rfloor>; r = x - of_int f
      in if r < 1 / 2 then f else if 1 / 2 < r then f + 1 else if even f then f else f + 1)"

fun normalise :: "nat \<Rightarrow> real \<Rightarrow> int \<Rightarrow> real \<times> int" where
  "normalise 0 m e = (m, e)"
| "normalise (Suc k) m e =
     (if m < 2 ^ 52 then normalise k (m * 2) (e - 1)
      else if 2 ^ 53 \<le> m then normalise k (m / 2) (e + 1)
      else (m, e))"

definition binary64 :: "real \<Rightarrow> real" where
  "binary64 x =
     (if x = 0 then 0
      else (let (m, e) = normalise 2200 \<bar>x\<bar> 0
            in sgn x * of_int (round_half_even m)
               * (if 0 \<le> e then 2 ^ nat e else 1 / 2 ^ nat (- e))))"

text \<open>
  The two computations once more, with a rounding \<open>rnd\<close> applied to the exact result of
  every operation, in the order in which Python evaluates the expressions; the literal
  \<^verbatim>\<open>9.81\<close> is rounded too, the other literals are integers. With the identity for \<open>rnd\<close> these
  are the computations of the physics engine above; with \<open>binary64\<close> they are what Python
  computes. The power \<^verbatim>\<open>x**k\<close> is taken as correctly rounded, and \<^verbatim>\<open>sum\<close> as adding from the
  left, which for a single modulus returns it unchanged.
\<close>

definition rounded_div :: "(real \<Rightarrow> real) \<Rightarrow> real \<Rightarrow> real \<Rightarrow> py_error + real" where
  "rounded_div rnd a b = (if b = 0 then Inl ZeroDivisionError else Inr (rnd (a / b)))"

definition calculate_moment_of_inertia_rounded :: "(real \<Rightarrow> real) \<Rightarrow> real \<Rightarrow> real \<Rightarrow> real" where
  "calculate_moment_of_inertia_rounded rnd breadth width =
     rnd (rnd (breadth * rnd (width ^ 3)) / 12)"

fun uniform_loop_rounded ::
    "(real \<Rightarrow> real) \<Rightarrow> real \<Rightarrow> real \<Rightarrow> reading list \<Rightarrow> real list \<Rightarrow> py_error + real list" where
  "uniform_loop_rounded rnd length_cm I [] youngs_moduli = Inr youngs_moduli"
| "uniform_loop_rounded rnd length_cm I (reading # readings) youngs_moduli =
     (let weight_kg = rnd (weight reading / 1000);
          force_N = rnd (weight_kg * rnd 9.81);
          depression_m = rnd (depression reading / 100);
          length_m = rnd (length_cm / 100);
          I_m4 = rnd (I / 100000000)
      in if depression_m \<noteq> 0 then
           (case rounded_div rnd force_N length_m of
              Inl e \<Rightarrow> Inl e
            | Inr w \<Rightarrow>
                (case rounded_div rnd (rnd (rnd (5 * w) * rnd (length_m ^ 4)))
                        (rnd (rnd (384 * I_m4) * \<bar>depression_m\<bar>)) of
                   Inl e \<Rightarrow> Inl e
                 | Inr Y \<Rightarrow>
                     (let Y_GPa = rnd (Y / 1000000000)
                      in uniform_loop_rounded rnd length_cm I readings (youngs_moduli @ [Y_GPa]))))
         else uniform_loop_rounded rnd length_cm I readings youngs_moduli)"

fun nonuniform_loop_rounded ::
    "(real \<Rightarrow> real) \<Rightarrow> real \<Rightarrow> real \<Rightarrow> reading list \<Rightarrow> real list \<Rightarrow> py_error + real list" where
  "nonuniform_loop_rounded rnd length_cm I [] youngs_moduli = Inr youngs_moduli"
| "nonuniform_loop_rounded rnd length_cm I (reading # readings) youngs_moduli =
     (let weight_kg = rnd (weight reading / 1000);
          force_N = rnd (weight_kg * rnd 9.81);
          depression_m = rnd (depression reading / 100);
          length_m = rnd (length_cm / 100);
          I_m4 = rnd (I / 100000000)
      in if depression_m \<noteq> 0 then
           (case rounded_div rnd (rnd (force_N * rnd (length_m ^ 3)))
                   (rnd (rnd (48 * I_m4) * \<bar>depression_m\<bar>)) of
              Inl e \<Rightarrow> Inl e
            | Inr Y \<Rightarrow>
                (let Y_GPa = rnd (Y / 1000000000)
                 in nonuniform_loop_rounded rnd length_cm I readings (youngs_moduli @ [Y_GPa])))
         else nonuniform_loop_rounded rnd length_cm I readings youngs_moduli)"

definition average_moduli_rounded :: "(real \<Rightarrow> real) \<Rightarrow> real list \<Rightarrow> py_error + real" where
  "average_moduli_rounded rnd youngs_moduli =
     (if youngs_moduli \<noteq> [] then
        rounded_div rnd (foldl (\<lambda>s y. rnd (s + y)) 0 youngs_moduli) (real (length youngs_moduli))
      else Inr 0)"

definition calculate_youngs_modulus_uniform_rounded ::
    "(real \<Rightarrow> real) \<Rightarrow> real \<Rightarrow> real \<Rightarrow> real \<Rightarrow> reading list \<Rightarrow> py_error + real" where
  "calculate_youngs_modulus_uniform_rounded rnd length_cm breadth width readings =
     (let I = calculate_moment_of_inertia_rounded rnd breadth width
      in case uniform_loop_rounded rnd length_cm I readings [] of
           Inl e \<Rightarrow> Inl e
         | Inr youngs_moduli \<Rightarrow> average_moduli_rounded rnd youngs_moduli)"

definition calculate_youngs_modulus_nonuniform_rounded ::
    "(real \<Rightarrow> real) \<Rightarrow> real \<Rightarrow> real \<Rightarrow> real \<Rightarrow> reading list \<Rightarrow> py_error + real" where
  "calculate_youngs_modulus_nonuniform_rounded rnd length_cm breadth width readings =
     (let I = calculate_moment_of_inertia_rounded rnd breadth width
      in case nonuniform_loop_rounded rnd length_cm I readings [] of
           Inl e \<Rightarrow> Inl e
         | Inr youngs_moduli \<Rightarrow> average_moduli_rounded rnd youngs_moduli)"

section \<open>Properties of the physics engine\<close>

subsection \<open>The two loops\<close>



lemma moment_of_inertia_pos:
  "0 < b \<Longrightarrow> 0 < t \<Longrightarrow> 0 < calculate_moment_of_inertia b t"
  by (simp add: calculate_moment_of_inertia_def)

lemma uniform_loop_values:
  "0 < L \<Longrightarrow> 0 < b \<Longrightarrow> 0 < t \<Longrightarrow>
   uniform_loop L (calculate_moment_of_inertia b t) rs acc =
     Inr (acc @ map (spec_uniform_modulus L b t) (nonzero_deflection rs))"
  by (induction rs arbitrary: acc)
     (simp_all add: nonzero_deflection_def Let_def py_div_def spec_uniform_modulus_def
        calculate_moment_of_inertia_def)

lemma nonuniform_loop_values:
  "0 < L \<Longrightarrow> 0 < b \<Longrightarrow> 0 < t \<Longrightarrow>
   nonuniform_loop L (calculate_moment_of_inertia b t) rs acc =
     Inr (acc @ map (spec_point_load_modulus L b t) (nonzero_deflection rs))"
  by (induction rs arbitrary: acc)
     (simp_all add: nonzero_deflection_def Let_def py_div_def spec_point_load_modulus_def
        calculate_moment_of_inertia_def)

lemma average_moduli_mean: "average_moduli ys = Inr (arithmetic_mean ys)"
  by (simp add: average_moduli_def arithmetic_mean_def py_div_def)

lemma uniform_value:
  "0 < L \<Longrightarrow> 0 < b \<Longrightarrow> 0 < t \<Longrightarrow>
   calculate_youngs_modulus_uniform L b t rs =
     Inr (arithmetic_mean (map (spec_uniform_modulus L b t) (nonzero_deflection rs)))"
  by (simp add: calculate_youngs_modulus_uniform_def uniform_loop_values average_moduli_mean)

lemma nonuniform_value:
  "0 < L \<Longrightarrow> 0 < b \<Longrightarrow> 0 < t \<Longrightarrow>
   calculate_youngs_modulus_nonuniform L b t rs =
     Inr (arithmetic_mean (map (spec_point_load_modulus L b t) (nonzero_deflection rs)))"
  by (simp add: calculate_youngs_modulus_nonuniform_def nonuniform_loop_values average_moduli_mean)





lemma spec_modulus_ratio:
  "L \<noteq> 0 \<Longrightarrow> spec_uniform_modulus L b t r = 5 / 8 * spec_point_load_modulus L b t r"
  by (simp add: spec_uniform_modulus_def spec_point_load_modulus_def Let_def
      power4_eq_xxxx power3_eq_cube field_simps)

lemma arithmetic_mean_scale:
  "arithmetic_mean (map (\<lambda>x. c * f x) xs) = c * arithmetic_mean (map f xs)"
  by (simp add: arithmetic_mean_def sum_list_const_mult)

lemma arithmetic_mean_ratio:
  assumes "L \<noteq> 0"
  shows "arithmetic_mean (map (spec_uniform_modulus L b t) xs) =
     5 / 8 * arithmetic_mean (map (spec_point_load_modulus L b t) xs)"
proof -
  have "map (spec_uniform_modulus L b t) xs =
      map (\<lambda>r. 5 / 8 * spec_point_load_modulus L b t r) xs"
    using assms by (simp add: spec_modulus_ratio)
  then show ?thesis
    by (simp only: arithmetic_mean_scale)
qed

subsection \<open>Rounded arithmetic\<close>

text \<open>With the identity as rounding, the rounded computations are the exact ones.\<close>

lemma uniform_loop_rounded_exact:
  "uniform_loop_rounded (\<lambda>x. x) L I rs acc = uniform_loop L I rs acc"
  by (induction rs arbitrary: acc) (simp_all add: Let_def rounded_div_def py_div_def)

lemma nonuniform_loop_rounded_exact:
  "nonuniform_loop_rounded (\<lambda>x. x) L I rs acc = nonuniform_loop L I rs acc"
  by (induction rs arbitrary: acc) (simp_all add: Let_def rounded_div_def py_div_def)

lemma foldl_add_sum_list: "foldl (\<lambda>s y. s + y) a ys = a + sum_list (ys :: real list)"
  by (induction ys arbitrary: a) simp_all

lemma average_moduli_rounded_exact: "average_moduli_rounded (\<lambda>x. x) ys = average_moduli ys"
  by (simp add: average_moduli_rounded_def average_moduli_def rounded_div_def py_div_def
      foldl_add_sum_list)

lemma uniform_rounded_exact:
  "calculate_youngs_modulus_uniform_rounded (\<lambda>x. x) L b t rs =
     calculate_youngs_modulus_uniform L b t rs"
  by (simp add: calculate_youngs_modulus_uniform_rounded_def calculate_youngs_modulus_uniform_def
      calculate_moment_of_inertia_rounded_def calculate_moment_of_inertia_def
      uniform_loop_rounded_exact average_moduli_rounded_exact split: sum.splits)

lemma nonuniform_rounded_exact:
  "calculate_youngs_modulus_nonuniform_rounded (\<lambda>x. x) L b t rs =
     calculate_youngs_modulus_nonuniform L b t rs"
  by (simp add: calculate_youngs_modulus_nonuniform_rounded_def
      calculate_youngs_modulus_nonuniform_def
      calculate_moment_of_inertia_rounded_def calculate_moment_of_inertia_def
      nonuniform_loop_rounded_exact average_moduli_rounded_exact split: sum.splits)

text \<open>\<open>binary64\<close> keeps zero and commutes with negation.\<close>

lemma binary64_zero: "binary64 0 = 0"
  by (simp add: binary64_def)

lemma binary64_minus: "binary64 (- x) = - binary64 x"
  by (simp add: binary64_def sgn_minus split: prod.splits)

lemma uniform_loop_rounded_skips_zero:
  "rnd 0 = 0 \<Longrightarrow>
   uniform_loop_rounded rnd L I rs acc = uniform_loop_rounded rnd L I (nonzero_deflection rs) acc"
  by (induction rs arbitrary: acc) (simp_all add: nonzero_deflection_def Let_def split: sum.splits)

lemma nonuniform_loop_rounded_skips_zero:
  "rnd 0 = 0 \<Longrightarrow>
   nonuniform_loop_rounded rnd L I rs acc =
     nonuniform_loop_rounded rnd L I (nonzero_deflection rs) acc"
  by (induction rs arbitrary: acc) (simp_all add: nonzero_deflection_def Let_def split: sum.splits)

lemma uniform_loop_rounded_all_zero:
  "rnd 0 = 0 \<Longrightarrow> \<forall>r \<in> set rs. depression r = 0 \<Longrightarrow>
   uniform_loop_rounded rnd L I rs acc = Inr acc"
  by (induction rs arbitrary: acc) simp_all

lemma nonuniform_loop_rounded_all_zero:
  "rnd 0 = 0 \<Longrightarrow> \<forall>r \<in> set rs. depression r = 0 \<Longrightarrow>
   nonuniform_loop_rounded rnd L I rs acc = Inr acc"
  by (induction rs arbitrary: acc) simp_all

lemma uniform_loop_rounded_negate:
  "(\<And>x. rnd (- x) = - rnd x) \<Longrightarrow>
   uniform_loop_rounded rnd L I (negate_deflections rs) acc = uniform_loop_rounded rnd L I rs acc"
  by (induction rs arbitrary: acc) (simp_all add: negate_deflections_def Let_def split: sum.splits)

lemma nonuniform_loop_rounded_negate:
  "(\<And>x. rnd (- x) = - rnd x) \<Longrightarrow>
   nonuniform_loop_rounded rnd L I (negate_deflections rs) acc =
     nonuniform_loop_rounded rnd L I rs acc"
  by (induction rs arbitrary: acc) (simp_all add: negate_deflections_def Let_def split: sum.splits)

text \<open>
  The roundings that the examples below go through, each one evaluated from the definition
  of \<open>binary64\<close>.
\<close>

lemma normalise_numeral:
  "normalise (numeral v) m e =
     (if m < 2 ^ 52 then normalise (pred_numeral v) (m * 2) (e - 1)
      else if 2 ^ 53 \<le> m then normalise (pred_numeral v) (m / 2) (e + 1)
      else (m, e))"
  by (simp add: numeral_eq_Suc)

lemma binary64_value_1: "binary64 (34844914372704094348442369119075 / 1393796574908163946345982392040522594123776) = 3868562622766813 / 154742504910672534362390528"
  by (simp add: binary64_def normalise_numeral round_half_even_def Let_def)

lemma binary64_value_2: "binary64 (6968982874540818869688473823815 / 87112285931760246646623899502532662132736) = 6189700196426901 / 77371252455336267181195264"
  by (simp add: binary64_def normalise_numeral round_half_even_def Let_def)

lemma binary64_value_3: "binary64 (34844914372704094348442369119075 / 174224571863520493293247799005065324265472) = 3868562622766813 / 19342813113834066795298816"
  by (simp add: binary64_def normalise_numeral round_half_even_def Let_def)

lemma binary64_value_4: "binary64 (6004799503160661 / 28823037615171174400000000) = 8059505464097527 / 38685626227668133590597632"
  by (simp add: binary64_def normalise_numeral round_half_even_def Let_def)

lemma binary64_value_5: "binary64 (24178516392292581 / 2417851639229258349412352) = 6044629098073145 / 604462909807314587353088"
  by (simp add: binary64_def normalise_numeral round_half_even_def Let_def)

lemma binary64_value_6: "binary64 (24178516392292581 / 302231454903657293676544) = 6044629098073145 / 75557863725914323419136"
  by (simp add: binary64_def normalise_numeral round_half_even_def Let_def)

lemma binary64_value_7: "binary64 (3602879701896397 / 3602879701896396800) = 1152921504606847 / 1152921504606846976"
  by (simp add: binary64_def normalise_numeral round_half_even_def Let_def)

lemma binary64_value_8: "binary64 (1 / 400) = 5764607523034235 / 2305843009213693952"
  by (simp add: binary64_def normalise_numeral round_half_even_def Let_def)

lemma binary64_value_9: "binary64 (1 / 100) = 5764607523034235 / 576460752303423488"
  by (simp add: binary64_def normalise_numeral round_half_even_def Let_def)

lemma binary64_value_10: "binary64 (1 / 48) = 6004799503160661 / 288230376151711744"
  by (simp add: binary64_def normalise_numeral round_half_even_def Let_def)

lemma binary64_value_11: "binary64 (1 / 20) = 3602879701896397 / 72057594037927936"
  by (simp add: binary64_def normalise_numeral round_half_even_def Let_def)

lemma binary64_value_12: "binary64 (7068849975120731 / 72057594037927936) = 7068849975120731 / 72057594037927936"
  by (simp add: binary64_def normalise_numeral round_half_even_def Let_def)

lemma binary64_value_13: "binary64 (31835270113891664174222397235685 / 324518553658426726783156020576256) = 7068849975120731 / 72057594037927936"
  by (simp add: binary64_def normalise_numeral round_half_even_def Let_def)

lemma binary64_value_14: "binary64 (1 / 10) = 3602879701896397 / 36028797018963968"
  by (simp add: binary64_def normalise_numeral round_half_even_def Let_def)

lemma binary64_value_15: "binary64 (1 / 8) = 1 / 8"
  by (simp add: binary64_def normalise_numeral round_half_even_def Let_def)

lemma binary64_value_16: "binary64 (1 / 4) = 1 / 4"
  by (simp add: binary64_def normalise_numeral round_half_even_def Let_def)

lemma binary64_value_17: "binary64 (35344249875603655 / 72057594037927936) = 4418031234450457 / 9007199254740992"
  by (simp add: binary64_def normalise_numeral round_half_even_def Let_def)

lemma binary64_value_18: "binary64 (4418031234450457 / 9007199254740992) = 4418031234450457 / 9007199254740992"
  by (simp add: binary64_def normalise_numeral round_half_even_def Let_def)

lemma binary64_value_19: "binary64 (19897043821182290799206378655187 / 40564819207303340847894502572032) = 4418031234450457 / 9007199254740992"
  by (simp add: binary64_def normalise_numeral round_half_even_def Let_def)

lemma binary64_value_20: "binary64 1 = 1"
  by (simp add: binary64_def normalise_numeral round_half_even_def Let_def)

lemma binary64_value_21: "binary64 (5522539043063071 / 2251799813685248) = 5522539043063071 / 2251799813685248"
  by (simp add: binary64_def normalise_numeral round_half_even_def Let_def)

lemma binary64_value_22: "binary64 (22090156172252285 / 9007199254740992) = 5522539043063071 / 2251799813685248"
  by (simp add: binary64_def normalise_numeral round_half_even_def Let_def)

lemma binary64_value_23: "binary64 (5143265280000001 / 2097152000000000) = 172579345095721 / 70368744177664"
  by (simp add: binary64_def normalise_numeral round_half_even_def Let_def)

lemma binary64_value_24: "binary64 (172579345095721 / 70368744177664) = 172579345095721 / 70368744177664"
  by (simp add: binary64_def normalise_numeral round_half_even_def Let_def)

lemma binary64_value_25: "binary64 (4418031234450457 / 1125899906842624) = 4418031234450457 / 1125899906842624"
  by (simp add: binary64_def normalise_numeral round_half_even_def Let_def)

lemma binary64_value_26: "binary64 (8229224448000001 / 2097152000000000) = 4418031234450457 / 1125899906842624"
  by (simp add: binary64_def normalise_numeral round_half_even_def Let_def)

lemma binary64_value_27: "binary64 (981 / 100) = 5522539043063071 / 562949953421312"
  by (simp add: binary64_def normalise_numeral round_half_even_def Let_def)

lemma binary64_value_28: "binary64 (8628967254786049 / 281474976710656) = 8628967254786049 / 281474976710656"
  by (simp add: binary64_def normalise_numeral round_half_even_def Let_def)

lemma binary64_value_29: "binary64 (8036352000000001 / 262144000000000) = 8628967254786049 / 281474976710656"
  by (simp add: binary64_def normalise_numeral round_half_even_def Let_def)

lemma binary64_value_30: "binary64 (9487649832335610673627136 / 3868562622766813) = 5143265280000001 / 2097152"
  by (simp add: binary64_def normalise_numeral round_half_even_def Let_def)

lemma binary64_value_31: "binary64 (15180239731736976648306688 / 3868562622766813) = 8229224448000001 / 2097152"
  by (simp add: binary64_def normalise_numeral round_half_even_def Let_def)

lemma binary64_value_32: "binary64 (189752996646712204882608128 / 6189700196426901) = 8036352000000001 / 262144"
  by (simp add: binary64_def normalise_numeral round_half_even_def Let_def)

lemmas binary64_values = binary64_value_1 binary64_value_2 binary64_value_3 binary64_value_4 binary64_value_5 binary64_value_6 binary64_value_7 binary64_value_8 binary64_value_9 binary64_value_10 binary64_value_11 binary64_value_12 binary64_value_13 binary64_value_14 binary64_value_15 binary64_value_16 binary64_value_17 binary64_value_18 binary64_value_19 binary64_value_20 binary64_value_21 binary64_value_22 binary64_value_23 binary64_value_24 binary64_value_25 binary64_value_26 binary64_value_27 binary64_value_28 binary64_value_29 binary64_value_30 binary64_value_31 binary64_value_32

text \<open>
  Two runs in binary64: length 100 cm, breadth 2 cm, thickness 0.5 cm, with one reading of
  10 g and 0.25 cm, and with one reading of 50 g and the float nearest to 0.1 cm. Python
  prints the three results as 2.4525000000000006, 3.9240000000000004 and
  30.656250000000004.
\<close>

lemma uniform_binary64_quarter:
  "calculate_youngs_modulus_uniform_rounded binary64 100 2 (1 / 2)
     [\<lparr>reading_num = 1, weight = 10, depression = 1 / 4\<rparr>]
   = Inr (172579345095721 / 70368744177664)"
  by (simp add: calculate_youngs_modulus_uniform_rounded_def calculate_moment_of_inertia_rounded_def
      average_moduli_rounded_def rounded_div_def Let_def power_divide binary64_values)

lemma nonuniform_binary64_quarter:
  "calculate_youngs_modulus_nonuniform_rounded binary64 100 2 (1 / 2)
     [\<lparr>reading_num = 1, weight = 10, depression = 1 / 4\<rparr>]
   = Inr (4418031234450457 / 1125899906842624)"
  by (simp add: calculate_youngs_modulus_nonuniform_rounded_def calculate_moment_of_inertia_rounded_def
      average_moduli_rounded_def rounded_div_def Let_def power_divide binary64_values)


subsection \<open>Zero deflections\<close>



text \<open>In binary64 as well, the readings with a zero deflection change nothing.\<close>

lemma zero_deflection_readings_skipped_rounded:
  "calculate_youngs_modulus_uniform_rounded binary64 L b t rs =
     calculate_youngs_modulus_uniform_rounded binary64 L b t (nonzero_deflection rs)
   \<and> calculate_youngs_modulus_nonuniform_rounded binary64 L b t rs =
     calculate_youngs_modulus_nonuniform_rounded binary64 L b t (nonzero_deflection rs)"
  unfolding calculate_youngs_modulus_uniform_rounded_def
    calculate_youngs_modulus_nonuniform_rounded_def
  using uniform_loop_rounded_skips_zero [of binary64, OF binary64_zero]
    nonuniform_loop_rounded_skips_zero [of binary64, OF binary64_zero]
  by metis



text \<open>The same holds in binary64.\<close>

lemma all_zero_deflections_give_zero_rounded:
  "\<forall>r \<in> set rs. depression r = 0 \<Longrightarrow>
   calculate_youngs_modulus_uniform_rounded binary64 L b t rs = Inr 0
   \<and> calculate_youngs_modulus_nonuniform_rounded binary64 L b t rs = Inr 0"
  by (simp add: calculate_youngs_modulus_uniform_rounded_def
      calculate_youngs_modulus_nonuniform_rounded_def binary64_zero
      uniform_loop_rounded_all_zero nonuniform_loop_rounded_all_zero average_moduli_rounded_def)

subsection \<open>The uniform-bending formula\<close>




subsection \<open>Uniform against point load\<close>

text \<open>
  Claim C9 says that the uniform-bending result is exactly 5/8 of the point-load result.
  The two functions round their intermediate results separately, so in binary64 the two
  results need not be in that ratio: for length 100 cm, breadth 2 cm, thickness 0.5 cm and
  one reading of 10 g and 0.25 cm they are 2.4525000000000006 and 3.9240000000000004 GPa,
  and the first is neither 5/8 of the second nor the float nearest to that.
\<close>

theorem rounded_results_not_in_ratio:
  "calculate_youngs_modulus_uniform_rounded binary64 100 2 (1 / 2)
     [\<lparr>reading_num = 1, weight = 10, depression = 1 / 4\<rparr>]
     = Inr (172579345095721 / 70368744177664)
   \<and> calculate_youngs_modulus_nonuniform_rounded binary64 100 2 (1 / 2)
     [\<lparr>reading_num = 1, weight = 10, depression = 1 / 4\<rparr>]
     = Inr (4418031234450457 / 1125899906842624)
   \<and> (172579345095721 / 70368744177664 :: real) \<noteq> 5 / 8 * (4418031234450457 / 1125899906842624)
   \<and> (172579345095721 / 70368744177664 :: real)
       \<noteq> binary64 (5 / 8 * (4418031234450457 / 1125899906842624))"
proof -
  have "binary64 (5 / 8 * (4418031234450457 / 1125899906842624))
      = (5522539043063071 / 2251799813685248 :: real)"
    by (simp add: binary64_def normalise_numeral round_half_even_def Let_def)
  then show ?thesis
    by (simp add: uniform_binary64_quarter nonuniform_binary64_quarter)
qed

text \<open>
  Claim C9, amended. In exact arithmetic, for every positive length, breadth and thickness
  and every list of readings, both computations return a value, the mean over the same
  readings (those with nonzero deflection), and the uniform-bending result is exactly 5/8
  of the point-load result; the same ratio holds for each reading's modulus.
\<close>

theorem uniform_is_five_eighths_of_point_load:
  "0 < L \<Longrightarrow> 0 < b \<Longrightarrow> 0 < t \<Longrightarrow>
   calculate_youngs_modulus_nonuniform L b t rs =
     Inr (arithmetic_mean (map (spec_point_load_modulus L b t) (nonzero_deflection rs)))
   \<and> calculate_youngs_modulus_uniform L b t rs =
     Inr (5 / 8 * arithmetic_mean (map (spec_point_load_modulus L b t) (nonzero_deflection rs)))
   \<and> spec_uniform_modulus L b t r = 5 / 8 * spec_point_load_modulus L b t r"
proof -
  assume pos: "0 < L" "0 < b" "0 < t"
  have u: "calculate_youngs_modulus_uniform L b t rs =
      Inr (5 / 8 * arithmetic_mean (map (spec_point_load_modulus L b t) (nonzero_deflection rs)))"
    using pos by (simp only: uniform_value) (simp only: arithmetic_mean_ratio)
  have n: "calculate_youngs_modulus_nonuniform L b t rs =
      Inr (arithmetic_mean (map (spec_point_load_modulus L b t) (nonzero_deflection rs)))"
    using pos by (rule nonuniform_value)
  have r: "spec_uniform_modulus L b t r = 5 / 8 * spec_point_load_modulus L b t r"
    using pos by (intro spec_modulus_ratio) simp
  show ?thesis
    using u n r by blast
qed

theorem uniform_is_five_eighths_of_point_load_witness:
  "(0::real) < 100 \<and> (0::real) < 2 \<and> (0::real) < 1 / 2
   \<and> calculate_youngs_modulus_nonuniform 100 2 (1 / 2)
        [\<lparr>reading_num = 1, weight = 50, depression = 1 / 10\<rparr>,
         \<lparr>reading_num = 2, weight = 100, depression = 0\<rparr>] = Inr (981 / 20)
   \<and> calculate_youngs_modulus_uniform 100 2 (1 / 2)
        [\<lparr>reading_num = 1, weight = 50, depression = 1 / 10\<rparr>,
         \<lparr>reading_num = 2, weight = 100, depression = 0\<rparr>] = Inr (5 / 8 * (981 / 20))"
proof -
  let ?r = "\<lparr>reading_num = 1, weight = 50, depression = 1 / 10\<rparr>"
  let ?z = "\<lparr>reading_num = 2, weight = 100, depression = 0\<rparr>"
  have pos: "(0::real) < 100" "(0::real) < 2" "(0::real) < 1 / 2"
    by simp_all
  have nz: "nonzero_deflection [?r, ?z] = [?r]"
    by (simp add: nonzero_deflection_def)
  have v: "arithmetic_mean (map (spec_point_load_modulus 100 2 (1 / 2)) [?r]) = 981 / 20"
    by (simp add: arithmetic_mean_def spec_point_load_modulus_def power3_eq_cube)
  show ?thesis
    using uniform_is_five_eighths_of_point_load [OF pos, of "[?r, ?z]" ?r] pos
    unfolding nz v by blast
qed

section \<open>Properties of the report renderer\<close>

subsection \<open>The table and the sections after it\<close>

lemma display_rows_values:
  "0 < L \<Longrightarrow> 0 < b \<Longrightarrow> 0 < t \<Longrightarrow>
   display_rows L (calculate_moment_of_inertia b t) bending_type rs =
     (map (\<lambda>r. Print [LJust 10 (IntNum (reading_num r)), Txt '' '',
                        LJust 15 (Fixed 2 (weight r)), Txt '' '',
                        LJust 20 (Fixed 4 (depression r)), Txt '' '',
                        LJust 20 (Fixed 2
                          (if depression r = 0 then 0
                           else if bending_type = 1 then spec_uniform_modulus L b t r
                           else spec_point_load_modulus L b t r))]) rs,
      None)"
  by (induction rs)
     (auto simp add: Let_def py_div_def and_then_def spec_uniform_modulus_def
        spec_point_load_modulus_def calculate_moment_of_inertia_def)

lemma analysis_zero_reference:
  "youngs_modulus m = 0 \<Longrightarrow> analysis c m = ([], Some ZeroDivisionError)"
  by (simp add: analysis_def py_div_def)

lemma analysis_nonzero_reference:
  "youngs_modulus m \<noteq> 0 \<Longrightarrow>
   analysis c m =
     (if \<bar>c - youngs_modulus m\<bar> / youngs_modulus m < 0.2 then (verdict_consistent, None)
      else (verdict_differs, None))"
  by (simp add: analysis_def py_div_def)

lemma percentage_difference_never_raises:
  "snd (percentage_difference c m) = None"
  by (simp add: percentage_difference_def py_div_def Let_def)


lemma display_results_output:
  assumes "0 < L" "0 < b" "0 < t" "youngs_modulus m \<noteq> 0"
  shows "\<exists>pre. display_results k m L b t bending_type rs c =
     (pre @ fst (analysis c m) @ [Print [Txt (newline # banner 80)]], None)"
proof -
  obtain p where p: "percentage_difference c m = (p, None)"
    using percentage_difference_never_raises [of c m] by (cases "percentage_difference c m") simp
  have "snd (analysis c m) = None"
    using assms(4) by (simp add: analysis_nonzero_reference)
  then obtain a where a: "analysis c m = (a, None)"
    by (cases "analysis c m") simp
  show ?thesis
    unfolding display_results_def Let_def display_rows_values [OF assms(1-3)] p a
    by (simp add: and_then_def)
qed

lemma display_results_raises_on_zero_reference:
  assumes "0 < L" "0 < b" "0 < t" "youngs_modulus m = 0"
  shows "snd (display_results k m L b t bending_type rs c) = Some ZeroDivisionError"
proof -
  have p: "percentage_difference c m = ([], None)"
    using assms(4) by (simp add: percentage_difference_def)
  show ?thesis
    unfolding display_results_def Let_def display_rows_values [OF assms(1-3)] p
      analysis_zero_reference [OF assms(4)]
    by (simp add: and_then_def)
qed

subsection \<open>Division by the reference modulus\<close>

text \<open>
  Claim C1 says that rendering never divides by a zero reference modulus. The percentage
  difference is under the guard \<^verbatim>\<open>if material['youngs_modulus'] != 0\<close> and prints nothing
  for a zero reference, but the verdict divides by the reference with no guard: for an
  entry whose reference modulus is 0, \<^verbatim>\<open>display_results\<close> raises \<^verbatim>\<open>ZeroDivisionError\<close> at the
  verdict, after the table and the final section are printed.
\<close>

theorem display_results_zero_reference_raises:
  "snd (display_results ''sample'' \<lparr>name = ''Sample'', youngs_modulus = 0, density = 1\<rparr>
          100 2 (1 / 2) 1 [\<lparr>reading_num = 1, weight = 50, depression = 1 / 10\<rparr>] (981 / 32))
     = Some ZeroDivisionError
   \<and> percentage_difference (981 / 32) \<lparr>name = ''Sample'', youngs_modulus = 0, density = 1\<rparr>
     = ([], None)"
proof -
  let ?m = "\<lparr>name = ''Sample'', youngs_modulus = 0, density = 1\<rparr>"
  have pos: "(0::real) < 100" "(0::real) < 2" "(0::real) < 1 / 2"
    by simp_all
  have a: "analysis (981 / 32) ?m = ([], Some ZeroDivisionError)"
    by (simp add: analysis_zero_reference)
  have p: "percentage_difference (981 / 32) ?m = ([], None)"
    by (simp add: percentage_difference_def)
  show ?thesis
    unfolding display_results_def Let_def display_rows_values [OF pos] a p
    by (simp add: and_then_def)
qed

subsection \<open>The verdict\<close>



section \<open>The sign of the deflection\<close>






text \<open>The sign of the deflection is ignored in binary64 as well.\<close>

lemma deflection_sign_is_ignored_rounded:
  "calculate_youngs_modulus_uniform_rounded binary64 L b t (negate_deflections rs) =
     calculate_youngs_modulus_uniform_rounded binary64 L b t rs
   \<and> calculate_youngs_modulus_nonuniform_rounded binary64 L b t (negate_deflections rs) =
     calculate_youngs_modulus_nonuniform_rounded binary64 L b t rs"
  by (simp add: calculate_youngs_modulus_uniform_rounded_def
      calculate_youngs_modulus_nonuniform_rounded_def
      uniform_loop_rounded_negate [of binary64, OF binary64_minus]
      nonuniform_loop_rounded_negate [of binary64, OF binary64_minus])

section \<open>Catalog lookup\<close>








section \<open>Saving the report\<close>

text \<open>
  Claim C10. The file is written if and only if the answer, stripped of surrounding white
  space and in lower case, is "yes" or "y": then the file of the derived name holds the
  report, and the console shows the confirmation and the closing message. For every other
  answer the files are unchanged, and the closing message follows with no exception.
  "YES", " y " and "Yes" save; "no" and the empty answer do not.
\<close>

theorem report_saved_only_on_yes:
  "save_option material_key material length_cm breadth width bending_type readings
       calculated_modulus (line # stdin) fs =
     (if py_lower (py_strip line) = ''yes'' \<or> py_lower (py_strip line) = ''y'' then
        ([Write [Txt (newline # ''Would you like to save these results to a file? (yes/no): '')],
          Print [Txt [newline], Uni 0x2713, Txt '' Results saved to '',
                 Txt ''youngs_modulus_'', Txt material_key, Txt ''_'', IntNum bending_type,
                 Txt ''.txt''],
          Print [Txt (newline # ''Thank you for using the Young's Modulus Measurement System!'')],
          Print [Txt (banner 80)]],
         fs([Txt ''youngs_modulus_'', Txt material_key, Txt ''_'', IntNum bending_type, Txt ''.txt'']
              \<mapsto> report_text material length_cm breadth width bending_type readings
                    calculated_modulus),
         None)
      else
        ([Write [Txt (newline # ''Would you like to save these results to a file? (yes/no): '')],
          Print [Txt (newline # ''Thank you for using the Young's Modulus Measurement System!'')],
          Print [Txt (banner 80)]],
         fs,
         None))
   \<and> py_lower (py_strip ''YES'') = ''yes''
   \<and> py_lower (py_strip '' y '') = ''y''
   \<and> py_lower (py_strip ''Yes'') = ''yes''
   \<and> py_lower (py_strip ''no'') = ''no''
   \<and> py_lower (py_strip []) = []"
proof -
  have ex: "py_lower (py_strip ''YES'') = ''yes''" "py_lower (py_strip '' y '') = ''y''"
    "py_lower (py_strip ''Yes'') = ''yes''" "py_lower (py_strip ''no'') = ''no''"
    "py_lower (py_strip []) = []"
    by code_simp+
  show ?thesis
    by (simp add: ex save_option_def emit_run_def Let_def)
qed

theorem report_saved_only_on_yes_witness:
  "fst (snd (save_option ''iron'' \<lparr>name = ''Iron'', youngs_modulus = 210, density = 7.87\<rparr>
               100 2 (1 / 2) 1 [\<lparr>reading_num = 1, weight = 50, depression = 1 / 10\<rparr>]
               (981 / 32) ['' Y ''] Map.empty))
     = [[Txt ''youngs_modulus_'', Txt ''iron'', Txt ''_'', IntNum 1, Txt ''.txt'']
          \<mapsto> report_text \<lparr>name = ''Iron'', youngs_modulus = 210, density = 7.87\<rparr>
                100 2 (1 / 2) 1 [\<lparr>reading_num = 1, weight = 50, depression = 1 / 10\<rparr>]
                (981 / 32)]
   \<and> fst (snd (save_option ''iron'' \<lparr>name = ''Iron'', youngs_modulus = 210, density = 7.87\<rparr>
               100 2 (1 / 2) 1 [\<lparr>reading_num = 1, weight = 50, depression = 1 / 10\<rparr>]
               (981 / 32) [''yes please''] Map.empty))
     = Map.empty"
proof -
  have y: "py_lower (py_strip '' Y '') = ''y''" "py_lower (py_strip ''yes please'') = ''yes please''"
    by code_simp+
  let ?m = "\<lparr>name = ''Iron'', youngs_modulus = 210, density = 7.87\<rparr>"
  let ?rs = "[\<lparr>reading_num = 1, weight = 50, depression = 1 / 10\<rparr>]"
  show ?thesis
    using report_saved_only_on_yes [of "''iron''" ?m 100 2 "1 / 2" 1 ?rs "981 / 32" "'' Y ''" "[]" Map.empty]
      report_saved_only_on_yes [of "''iron''" ?m 100 2 "1 / 2" 1 ?rs "981 / 32" "''yes please''" "[]" Map.empty]
    by (simp add: y)
qed

text \<open>
  A whole run of \<^verbatim>\<open>main\<close>: iron, a rod of 100 by 2 by 0.5 cm, uniform bending, one reading
  of 50 g and 0.1 cm, and the answer "y". The run ends with no exception and one file.
\<close>

lemma main_example_run:
  "snd (main (map_of [(''1'', 1)])
             (map_of [(''100'', 100), (''2'', 2), (''0.5'', 1 / 2), (''50'', 50), (''0.1'', 1 / 10)])
             [''1'', ''100'', ''2'', ''0.5'', ''1'', ''1'', ''50'', ''0.1'', ''y'']
             Map.empty)
     = ([[Txt ''youngs_modulus_'', Txt ''iron'', Txt ''_'', IntNum 1, Txt ''.txt'']
           \<mapsto> report_text \<lparr>name = ''Iron'', youngs_modulus = 210, density = 7.87\<rparr>
                 100 2 (1 / 2) 1 [\<lparr>reading_num = 1, weight = 50, depression = 1 / 10\<rparr>]
                 (981 / 32)],
        None)"
proof -
  define int_of :: "string \<Rightarrow> int option" where "int_of = map_of [(''1'', 1)]"
  define float_of :: "string \<Rightarrow> real option" where
    "float_of = map_of [(''100'', 100), (''2'', 2), (''0.5'', 1 / 2), (''50'', 50), (''0.1'', 1 / 10)]"
  define iron where "iron = \<lparr>name = ''Iron'', youngs_modulus = 210, density = 7.87\<rparr>"
  define rs where "rs = [\<lparr>reading_num = 1, weight = 50, depression = 1 / 10\<rparr>]"
  have "snd (get_material_choice int_of [''1'', ''100'', ''2'', ''0.5'', ''1'', ''1'', ''50'', ''0.1'', ''y''])
      = Inr ((''iron'', iron), [''100'', ''2'', ''0.5'', ''1'', ''1'', ''50'', ''0.1'', ''y''])"
    by (simp add: iron_def int_of_def get_material_choice_def emit_def MATERIAL_DATABASE_def
        py_index_def py_getitem_def)
  then obtain o1 where o1:
    "get_material_choice int_of [''1'', ''100'', ''2'', ''0.5'', ''1'', ''1'', ''50'', ''0.1'', ''y'']
      = (o1, Inr ((''iron'', iron), [''100'', ''2'', ''0.5'', ''1'', ''1'', ''50'', ''0.1'', ''y'']))"
    by (metis prod.collapse)
  have "snd (get_dimensions float_of [''100'', ''2'', ''0.5'', ''1'', ''1'', ''50'', ''0.1'', ''y''])
      = Inr ((100, 2, 1 / 2), [''1'', ''1'', ''50'', ''0.1'', ''y''])"
    by (simp add: float_of_def get_dimensions_def emit_def)
  then obtain o2 where o2:
    "get_dimensions float_of [''100'', ''2'', ''0.5'', ''1'', ''1'', ''50'', ''0.1'', ''y'']
      = (o2, Inr ((100, 2, 1 / 2), [''1'', ''1'', ''50'', ''0.1'', ''y'']))"
    by (metis prod.collapse)
  have "snd (get_bending_type int_of [''1'', ''1'', ''50'', ''0.1'', ''y''])
      = Inr (1, [''1'', ''50'', ''0.1'', ''y''])"
    by (simp add: int_of_def get_bending_type_def emit_def)
  then obtain o3 where o3:
    "get_bending_type int_of [''1'', ''1'', ''50'', ''0.1'', ''y'']
      = (o3, Inr (1, [''1'', ''50'', ''0.1'', ''y'']))"
    by (metis prod.collapse)
  have "snd (get_readings int_of float_of [''1'', ''50'', ''0.1'', ''y''])
      = Inr ((rs, 50), [''y''])"
    by (simp add: rs_def int_of_def float_of_def get_readings_def emit_def)
  then obtain o4 where o4:
    "get_readings int_of float_of [''1'', ''50'', ''0.1'', ''y''] = (o4, Inr ((rs, 50), [''y'']))"
    by (metis prod.collapse)
  have c: "calculate_youngs_modulus_uniform 100 2 (1 / 2) rs = Inr (981 / 32)"
    by (simp add: rs_def calculate_youngs_modulus_uniform_def calculate_moment_of_inertia_def
        Let_def py_div_def average_moduli_def power3_eq_cube power4_eq_xxxx)
  have pos: "(0::real) < 100" "(0::real) < 2" "(0::real) < 1 / 2"
    by simp_all
  have nz: "youngs_modulus iron \<noteq> 0"
    by (simp add: iron_def)
  obtain pre where v: "display_results ''iron'' iron 100 2 (1 / 2) 1 rs (981 / 32)
      = (pre @ fst (analysis (981 / 32) iron) @ [Print [Txt (newline # banner 80)]], None)"
    using display_results_output [OF pos nz] by blast
  have y: "py_lower (py_strip ''y'') = ''y''"
    by code_simp
  have "snd (main int_of float_of
      [''1'', ''100'', ''2'', ''0.5'', ''1'', ''1'', ''50'', ''0.1'', ''y''] Map.empty)
     = ([[Txt ''youngs_modulus_'', Txt ''iron'', Txt ''_'', IntNum 1, Txt ''.txt'']
           \<mapsto> report_text iron 100 2 (1 / 2) 1 rs (981 / 32)], None)"
    by (simp add: main_def o1 o2 o3 o4 emit_run_def c v save_option_def y Let_def)
  then show ?thesis
    by (simp only: int_of_def float_of_def iron_def rs_def)
qed

end
